theory Spec2Isabelle
  imports Main "HOL-Library.AList"
begin

section \<open>Python values used by the client\<close>

text \<open>
  The values that travel through \<^verbatim>\<open>python-client.py\<close>: what \<^verbatim>\<open>response.json()\<close>
  returns and what the request dictionaries hold. Python's \<^verbatim>\<open>None\<close> and JSON's
  \<^verbatim>\<open>null\<close> are the same Python value, \<open>JNull\<close>. A \<^verbatim>\<open>dict\<close> keeps insertion order and
  is an association list.
\<close>

datatype json =
    JNull
  | JBool bool
  | JInt int
  | JStr string
  | JArr "json list"
  | JObj "(string \<times> json) list"

type_synonym dict = "(string \<times> json) list"

text \<open>Truth value testing, as \<^verbatim>\<open>if ipv4:\<close> does it.\<close>

fun truthy :: "json \<Rightarrow> bool" where
  "truthy JNull = False"
| "truthy (JBool b) = b"
| "truthy (JInt i) = (i \<noteq> 0)"
| "truthy (JStr s) = (s \<noteq> [])"
| "truthy (JArr xs) = (xs \<noteq> [])"
| "truthy (JObj kvs) = (kvs \<noteq> [])"

text \<open>
  An optional argument (\<^verbatim>\<open>ipv4: str = None\<close>, \<^verbatim>\<open>network_id: int = None\<close>) is an
  \<open>option\<close>; \<open>None\<close> is the argument left out. These give the Python value bound to
  the parameter.
\<close>

definition opt_str :: "string option \<Rightarrow> json" where
  "opt_str a = (case a of None \<Rightarrow> JNull | Some s \<Rightarrow> JStr s)"

definition opt_int :: "int option \<Rightarrow> json" where
  "opt_int a = (case a of None \<Rightarrow> JNull | Some i \<Rightarrow> JInt i)"

text \<open>\<^verbatim>\<open>data[key] = value\<close>: replaces the value of a key in place, or appends the key.\<close>

definition setitem :: "dict \<Rightarrow> string \<Rightarrow> json \<Rightarrow> dict" where
  "setitem d k v = AList.update k v d"

text \<open>\<^verbatim>\<open>s.rstrip(chars)\<close>: drops every trailing character that is one of \<open>chars\<close>.\<close>

definition rstrip :: "string \<Rightarrow> string \<Rightarrow> string" where
  "rstrip s chars = rev (dropWhile (\<lambda>c. c \<in> set chars) (rev s))"

text \<open>
  \<^verbatim>\<open>str(i)\<close> of an integer, which is what an f-string field \<^verbatim>\<open>{machine_id}\<close> inserts:
  decimal digits, a leading minus sign for a negative number.
\<close>

definition digit :: "nat \<Rightarrow> char" where
  "digit d = ''0123456789'' ! (d mod 10)"

fun str_nat :: "nat \<Rightarrow> string" where
  "str_nat n = (if n < 10 then [digit n] else str_nat (n div 10) @ [digit (n mod 10)])"

declare str_nat.simps [simp del]

definition str_int :: "int \<Rightarrow> string" where
  "str_int i = (if i < 0 then CHR ''-'' # str_nat (nat (- i)) else str_nat (nat i))"

section \<open>The HTTP library as the client uses it\<close>

text \<open>
  The \<^verbatim>\<open>requests\<close> library is not part of the repository. A request is what the
  client hands to the library, and what the session adds to it: the verb, the URL string
  as the f-string built it, the session's headers, the cookies of the session's jar and
  the \<^verbatim>\<open>json=\<close> argument. The client reads two things of a response: its status code,
  through \<^verbatim>\<open>raise_for_status()\<close>, and its body decoded by \<^verbatim>\<open>json()\<close>. \<open>decoded\<close> is
  that decoding, \<open>None\<close> when the body is not valid JSON. The session reads a third:
  \<open>set_cookies\<close>, the cookies the reply sets for the whole site
  (\<^verbatim>\<open>Set-Cookie: name=value; Path=/\<close>).
\<close>

datatype verb = GET | POST | DELETE

record request =
  verb :: verb
  url :: string
  req_headers :: "(string \<times> string) list"
  req_cookies :: "(string \<times> string) list"
  json_body :: "dict option"

record response =
  status_code :: int
  decoded :: "json option"
  set_cookies :: "(string \<times> string) list"

datatype error =
    HTTPError int
  | JSONDecodeError
  | ConnectionError

text \<open>
  Everything outside the client object is the world \<open>'w\<close>: the network, the server and
  the library's own connection state. Sending a request changes the world and yields a
  response, or raises when no response arrives.
\<close>

type_synonym 'w transport = "'w \<Rightarrow> request \<Rightarrow> (error + response) \<times> 'w"

text \<open>
  \<^verbatim>\<open>Response.raise_for_status()\<close> of the library, which every method calls. It builds
  an error message for a client error and for a server error, and raises only when it
  has one:
  \<^verbatim>\<open>
  if 400 <= self.status_code < 500:    # "... Client Error ..."
  elif 500 <= self.status_code < 600:  # "... Server Error ..."
  if http_error_msg: raise HTTPError(http_error_msg, response=self)
  \<close>
  Any other status, 2xx or not, returns normally.
\<close>

definition raise_for_status :: "response \<Rightarrow> error + unit" where
  "raise_for_status r =
     (if 400 \<le> status_code r \<and> status_code r < 500 then Inl (HTTPError (status_code r))
      else if 500 \<le> status_code r \<and> status_code r < 600 then Inl (HTTPError (status_code r))
      else Inr ())"

text \<open>\<^verbatim>\<open>Response.json()\<close>: the decoded body, or \<^verbatim>\<open>JSONDecodeError\<close>.\<close>

definition response_json :: "response \<Rightarrow> error + json" where
  "response_json r = (case decoded r of None \<Rightarrow> Inl JSONDecodeError | Some v \<Rightarrow> Inr v)"

text \<open>An exception ends the method: the rest runs only on a value.\<close>

definition and_then :: "error + 'a \<Rightarrow> ('a \<Rightarrow> error + 'b) \<Rightarrow> error + 'b" where
  "and_then r f = (case r of Inl e \<Rightarrow> Inl e | Inr x \<Rightarrow> f x)"

text \<open>
  A \<^verbatim>\<open>requests.Session\<close> as the client uses it: the default headers, which
  \<^verbatim>\<open>__init__\<close> updates, and the cookie jar, which the library keeps by itself. The jar
  is modelled for the one site the client talks to, as the cookies by name.
\<close>

record session =
  headers :: "(string \<times> string) list"
  cookies :: "(string \<times> string) list"

text \<open>\<^verbatim>\<open>session.headers.update({...})\<close>, one key after the other.\<close>

definition headers_update :: "session \<Rightarrow> (string \<times> string) list \<Rightarrow> session" where
  "headers_update s kvs = s\<lparr>headers := AList.updates (map fst kvs) (map snd kvs) (headers s)\<rparr>"

text \<open>
  The library's \<^verbatim>\<open>extract_cookies_to_jar(self.cookies, request, response)\<close>, which
  \<^verbatim>\<open>Session.send\<close> runs on every response, whatever its status: the cookies the reply
  sets go into the session's jar.
\<close>

definition extract_cookies :: "session \<Rightarrow> response \<Rightarrow> session" where
  "extract_cookies s r =
     s\<lparr>cookies :=
         AList.updates (map fst (set_cookies r)) (map snd (set_cookies r)) (cookies s)\<rparr>"

text \<open>
  \<^verbatim>\<open>Session.request(method, url, json=...)\<close>: one request on the wire, carrying the
  session's headers and the cookies of its jar; the session afterwards has the reply's
  cookies in its jar. When no response arrives the session is as before.
\<close>

definition session_request ::
  "session \<Rightarrow> verb \<Rightarrow> string \<Rightarrow> dict option \<Rightarrow> 'w transport \<Rightarrow> 'w
     \<Rightarrow> (error + response) \<times> session \<times> 'w" where
  "session_request s v u j send w =
     (let (r, w') = send w \<lparr>verb = v, url = u, req_headers = headers s,
                             req_cookies = cookies s, json_body = j\<rparr>
      in (r, (case r of Inl e \<Rightarrow> s | Inr response \<Rightarrow> extract_cookies s response), w'))"

text \<open>
  \<^verbatim>\<open>session.get(url)\<close>, \<^verbatim>\<open>session.post(url, json=data)\<close> and \<^verbatim>\<open>session.delete(url)\<close>.
\<close>

definition session_get ::
  "session \<Rightarrow> string \<Rightarrow> 'w transport \<Rightarrow> 'w \<Rightarrow> (error + response) \<times> session \<times> 'w" where
  "session_get s u send w = session_request s GET u None send w"

definition session_post ::
  "session \<Rightarrow> string \<Rightarrow> dict \<Rightarrow> 'w transport \<Rightarrow> 'w \<Rightarrow> (error + response) \<times> session \<times> 'w" where
  "session_post s u data send w = session_request s POST u (Some data) send w"

definition session_delete ::
  "session \<Rightarrow> string \<Rightarrow> 'w transport \<Rightarrow> 'w \<Rightarrow> (error + response) \<times> session \<times> 'w" where
  "session_delete s u send w = session_request s DELETE u None send w"

section \<open>NookClient\<close>

text \<open>
  The client object has two attributes. A method takes the object and the world and
  returns its outcome (\<open>Inl\<close> the exception raised), the object and the world after
  the call. No method assigns to an attribute; the session object that \<open>self.session\<close>
  refers to is the one the library has updated during the call.
\<close>

record NookClient =
  base_url :: string
  session :: session

type_synonym 'w outcome = "(error + json) \<times> NookClient \<times> 'w"

text \<open>
  \<^verbatim>\<open>__init__\<close>. \<open>fresh\<close> is the value of \<^verbatim>\<open>requests.Session()\<close>, whose default headers
  are the library's and whose jar is empty.
\<close>

definition NookClient_init :: "session \<Rightarrow> string \<Rightarrow> NookClient" where
  "NookClient_init fresh b =
     \<lparr>base_url = rstrip b ''/'',
      session = headers_update fresh
        [(''Content-Type'', ''application/json''),
         (''User-Agent'', ''nook-python-client/1.0'')]\<rparr>"

definition get_machines :: "NookClient \<Rightarrow> 'w transport \<Rightarrow> 'w \<Rightarrow> 'w outcome" where
  "get_machines self send w =
     (let (r, s', w') = session_get (session self) (base_url self @ ''/api/v0/machines'') send w
      in (and_then r (\<lambda>response.
            and_then (raise_for_status response) (\<lambda>_. response_json response)),
          self\<lparr>session := s'\<rparr>, w'))"

definition create_machine ::
  "NookClient \<Rightarrow> string \<Rightarrow> string \<Rightarrow> string option \<Rightarrow> int option \<Rightarrow> 'w transport \<Rightarrow> 'w \<Rightarrow> 'w outcome" where
  "create_machine self name hostname ipv4 network_id send w =
     (let data = [(''name'', JStr name), (''hostname'', JStr hostname)];
          data = (if truthy (opt_str ipv4) then setitem data ''ipv4'' (opt_str ipv4) else data);
          data = (if truthy (opt_int network_id)
                  then setitem data ''network_id'' (opt_int network_id) else data);
          (r, s', w') = session_post (session self) (base_url self @ ''/api/v0/machines'') data send w
      in (and_then r (\<lambda>response.
            and_then (raise_for_status response) (\<lambda>_. response_json response)),
          self\<lparr>session := s'\<rparr>, w'))"

definition get_machine_by_name :: "NookClient \<Rightarrow> string \<Rightarrow> 'w transport \<Rightarrow> 'w \<Rightarrow> 'w outcome" where
  "get_machine_by_name self name send w =
     (let (r, s', w') = session_get (session self)
                      (base_url self @ ''/api/v0/machines/name/'' @ name) send w
      in (and_then r (\<lambda>response.
            and_then (raise_for_status response) (\<lambda>_. response_json response)),
          self\<lparr>session := s'\<rparr>, w'))"

definition delete_machine :: "NookClient \<Rightarrow> int \<Rightarrow> 'w transport \<Rightarrow> 'w \<Rightarrow> 'w outcome" where
  "delete_machine self machine_id send w =
     (let (r, s', w') = session_delete (session self)
                      (base_url self @ ''/api/v0/machines/'' @ str_int machine_id) send w
      in (and_then r (\<lambda>response.
            and_then (raise_for_status response) (\<lambda>_. Inr JNull)),
          self\<lparr>session := s'\<rparr>, w'))"

definition get_networks :: "NookClient \<Rightarrow> 'w transport \<Rightarrow> 'w \<Rightarrow> 'w outcome" where
  "get_networks self send w =
     (let (r, s', w') = session_get (session self) (base_url self @ ''/api/v0/networks'') send w
      in (and_then r (\<lambda>response.
            and_then (raise_for_status response) (\<lambda>_. response_json response)),
          self\<lparr>session := s'\<rparr>, w'))"

definition create_network ::
  "NookClient \<Rightarrow> string \<Rightarrow> string \<Rightarrow> string \<Rightarrow> string option \<Rightarrow> string option \<Rightarrow> string option
     \<Rightarrow> 'w transport \<Rightarrow> 'w \<Rightarrow> 'w outcome" where
  "create_network self name bridge subnet gateway dns_servers description send w =
     (let data = [(''name'', JStr name), (''bridge'', JStr bridge), (''subnet'', JStr subnet)];
          data = (if truthy (opt_str gateway)
                  then setitem data ''gateway'' (opt_str gateway) else data);
          data = (if truthy (opt_str dns_servers)
                  then setitem data ''dns_servers'' (opt_str dns_servers) else data);
          data = (if truthy (opt_str description)
                  then setitem data ''description'' (opt_str description) else data);
          (r, s', w') = session_post (session self) (base_url self @ ''/api/v0/networks'') data send w
      in (and_then r (\<lambda>response.
            and_then (raise_for_status response) (\<lambda>_. response_json response)),
          self\<lparr>session := s'\<rparr>, w'))"

definition get_ssh_keys :: "NookClient \<Rightarrow> 'w transport \<Rightarrow> 'w \<Rightarrow> 'w outcome" where
  "get_ssh_keys self send w =
     (let (r, s', w') = session_get (session self) (base_url self @ ''/api/v0/ssh-keys'') send w
      in (and_then r (\<lambda>response.
            and_then (raise_for_status response) (\<lambda>_. response_json response)),
          self\<lparr>session := s'\<rparr>, w'))"

definition add_ssh_key :: "NookClient \<Rightarrow> int \<Rightarrow> string \<Rightarrow> 'w transport \<Rightarrow> 'w \<Rightarrow> 'w outcome" where
  "add_ssh_key self machine_id key_text send w =
     (let data = [(''machine_id'', JInt machine_id), (''key_text'', JStr key_text)];
          (r, s', w') = session_post (session self) (base_url self @ ''/api/v0/ssh-keys'') data send w
      in (and_then r (\<lambda>response.
            and_then (raise_for_status response) (\<lambda>_. response_json response)),
          self\<lparr>session := s'\<rparr>, w'))"

definition delete_ssh_key :: "NookClient \<Rightarrow> int \<Rightarrow> 'w transport \<Rightarrow> 'w \<Rightarrow> 'w outcome" where
  "delete_ssh_key self key_id send w =
     (let (r, s', w') = session_delete (session self)
                      (base_url self @ ''/api/v0/ssh-keys/'' @ str_int key_id) send w
      in (and_then r (\<lambda>response.
            and_then (raise_for_status response) (\<lambda>_. Inr JNull)),
          self\<lparr>session := s'\<rparr>, w'))"

section \<open>Calls, runs and the wire\<close>

text \<open>
  A call names a method together with its arguments, so that a statement can range over
  every method and over sequences of calls. \<open>invoke\<close> dispatches a call to its method.
\<close>

datatype call =
    Get_machines
  | Create_machine string string "string option" "int option"
  | Get_machine_by_name string
  | Delete_machine int
  | Get_networks
  | Create_network string string string "string option" "string option" "string option"
  | Get_ssh_keys
  | Add_ssh_key int string
  | Delete_ssh_key int

fun invoke :: "NookClient \<Rightarrow> call \<Rightarrow> 'w transport \<Rightarrow> 'w \<Rightarrow> 'w outcome" where
  "invoke self Get_machines = get_machines self"
| "invoke self (Create_machine name hostname ipv4 network_id) =
     create_machine self name hostname ipv4 network_id"
| "invoke self (Get_machine_by_name name) = get_machine_by_name self name"
| "invoke self (Delete_machine machine_id) = delete_machine self machine_id"
| "invoke self Get_networks = get_networks self"
| "invoke self (Create_network name bridge subnet gateway dns_servers description) =
     create_network self name bridge subnet gateway dns_servers description"
| "invoke self Get_ssh_keys = get_ssh_keys self"
| "invoke self (Add_ssh_key machine_id key_text) = add_ssh_key self machine_id key_text"
| "invoke self (Delete_ssh_key key_id) = delete_ssh_key self key_id"

text \<open>
  A caller that makes one call after the other on the same object, catching whatever a
  call raises: the outcomes in order, the object and the world at the end.
\<close>

fun run :: "NookClient \<Rightarrow> call list \<Rightarrow> 'w transport \<Rightarrow> 'w
    \<Rightarrow> (error + json) list \<times> NookClient \<times> 'w" where
  "run self [] send w = ([], self, w)"
| "run self (c # cs) send w =
     (let (out, self', w') = invoke self c send w;
          (outs, self'', w'') = run self' cs send w'
      in (out # outs, self'', w''))"

text \<open>
  A transport that also writes every request it is handed to a log, and the projections
  of what a call or a run returns: the value or exception, the client object afterwards,
  and the requests that went over the wire.
\<close>

definition logging :: "'w transport \<Rightarrow> ('w \<times> request list) transport" where
  "logging send = (\<lambda>(w, log) req. let (r, w') = send w req in (r, (w', log @ [req])))"

definition returned :: "'a \<times> NookClient \<times> 'w \<Rightarrow> 'a" where
  "returned x = fst x"

definition client_after :: "'a \<times> NookClient \<times> 'w \<Rightarrow> NookClient" where
  "client_after x = fst (snd x)"

definition wire :: "'a \<times> NookClient \<times> 'w \<times> request list \<Rightarrow> request list" where
  "wire x = snd (snd (snd x))"

text \<open>
  A request without its cookies: the verb, the URL, the headers and the body, which are
  what the client's own code and the session's default headers decide.
\<close>

definition sans_cookies :: "request \<Rightarrow> verb \<times> string \<times> (string \<times> string) list \<times> dict option" where
  "sans_cookies r = (verb r, url r, req_headers r, json_body r)"

text \<open>A server that gives the same answer to every request.\<close>

definition replying :: "error + response \<Rightarrow> 'w transport" where
  "replying reply = (\<lambda>w req. (reply, w))"

text \<open>
  The endpoint table of the specification, one row per method: the verb and the path,
  with \<^verbatim>\<open>{name}\<close> and \<^verbatim>\<open>{id}\<close> filled in from the call's arguments.
\<close>

fun endpoint :: "call \<Rightarrow> verb \<times> string" where
  "endpoint Get_machines = (GET, ''/api/v0/machines'')"
| "endpoint (Create_machine name hostname ipv4 network_id) = (POST, ''/api/v0/machines'')"
| "endpoint (Get_machine_by_name name) = (GET, ''/api/v0/machines/name/'' @ name)"
| "endpoint (Delete_machine machine_id) = (DELETE, ''/api/v0/machines/'' @ str_int machine_id)"
| "endpoint Get_networks = (GET, ''/api/v0/networks'')"
| "endpoint (Create_network name bridge subnet gateway dns_servers description) =
     (POST, ''/api/v0/networks'')"
| "endpoint Get_ssh_keys = (GET, ''/api/v0/ssh-keys'')"
| "endpoint (Add_ssh_key machine_id key_text) = (POST, ''/api/v0/ssh-keys'')"
| "endpoint (Delete_ssh_key key_id) = (DELETE, ''/api/v0/ssh-keys/'' @ str_int key_id)"

text \<open>The methods declared to return \<^verbatim>\<open>None\<close>.\<close>

fun returns_None :: "call \<Rightarrow> bool" where
  "returns_None (Delete_machine machine_id) = True"
| "returns_None (Delete_ssh_key key_id) = True"
| "returns_None c = False"

section \<open>The metadata service\<close>

text \<open>
  Modelled from the spec: the Nook metadata service (identifier allocator, network,
  machine and SSH key registries) has no source file here; only its example client does.
  The records are the data model of the specification, section 3.
\<close>

record network =
  n_id :: int
  n_name :: string
  n_bridge :: string
  n_subnet :: string
  n_gateway :: "string option"
  n_dns_servers :: "string option"
  n_description :: "string option"

record machine =
  m_id :: int
  m_name :: string
  m_hostname :: string
  m_ipv4 :: "string option"
  m_network_id :: "int option"

record sshkey =
  k_id :: int
  k_machine_id :: int
  k_key_text :: string

datatype kind = NetworkKind | MachineKind | SSHKeyKind

datatype failure =
    DuplicateName
  | InvalidSubnet
  | UnknownNetwork
  | UnknownMachine
  | EmptyKey
  | NotFound
  | ReferencedByMachine

text \<open>
  Modelled from the spec: the state of the service, which is the three registries
  (records in insertion order) and the allocator's last issued id of each kind.
\<close>

record service =
  last_id :: "kind \<Rightarrow> int"
  networks :: "network list"
  machines :: "machine list"
  ssh_keys :: "sshkey list"

text \<open>Modelled from the spec: the service at process start, nothing stored or issued.\<close>

definition empty_service :: service where
  "empty_service = \<lparr>last_id = (\<lambda>k. 0), networks = [], machines = [], ssh_keys = []\<rparr>"

text \<open>
  Modelled from the spec: the Identifier Allocator's \<^verbatim>\<open>next(resource_kind)\<close>, strictly
  increasing within a kind, starting at 1, never reusing an id.
\<close>

definition next_id :: "kind \<Rightarrow> service \<Rightarrow> int \<times> service" where
  "next_id k s = (last_id s k + 1, s\<lparr>last_id := (last_id s)(k := last_id s k + 1)\<rparr>)"

text \<open>
  Modelled from the spec: a blank key text, one with no character other than white
  space (the empty text among them).
\<close>

definition blank :: "string \<Rightarrow> bool" where
  "blank s = list_all (\<lambda>c. c \<in> set [CHR '' '', CHR 0x09, CHR 0x0A, CHR 0x0B, CHR 0x0C, CHR 0x0D]) s"

text \<open>
  Modelled from the spec: Network Registry \<^verbatim>\<open>create\<close>. The specification does not fix
  the CIDR syntax, so the validity test \<open>valid_cidr\<close> is a parameter.
\<close>

definition network_create ::
  "(string \<Rightarrow> bool) \<Rightarrow> string \<Rightarrow> string \<Rightarrow> string \<Rightarrow> string option \<Rightarrow> string option
     \<Rightarrow> string option \<Rightarrow> service \<Rightarrow> (failure + network) \<times> service" where
  "network_create valid_cidr name bridge subnet gateway dns_servers description s =
     (if \<exists>n \<in> set (networks s). n_name n = name then (Inl DuplicateName, s)
      else if \<not> valid_cidr subnet then (Inl InvalidSubnet, s)
      else
        let (i, s') = next_id NetworkKind s;
            n = \<lparr>n_id = i, n_name = name, n_bridge = bridge, n_subnet = subnet,
                 n_gateway = gateway, n_dns_servers = dns_servers,
                 n_description = description\<rparr>
        in (Inr n, s'\<lparr>networks := networks s' @ [n]\<rparr>))"

text \<open>Modelled from the spec: Network Registry \<^verbatim>\<open>list\<close>, all networks in insertion order.\<close>

definition network_list :: "service \<Rightarrow> network list" where
  "network_list s = networks s"

text \<open>
  Modelled from the spec: Network Registry \<^verbatim>\<open>delete\<close>, with the referential-integrity
  guard against machines that reference the network.
\<close>

definition network_delete :: "int \<Rightarrow> service \<Rightarrow> (failure + unit) \<times> service" where
  "network_delete i s =
     (if \<not> (\<exists>n \<in> set (networks s). n_id n = i) then (Inl NotFound, s)
      else if \<exists>m \<in> set (machines s). m_network_id m = Some i then (Inl ReferencedByMachine, s)
      else (Inr (), s\<lparr>networks := filter (\<lambda>n. n_id n \<noteq> i) (networks s)\<rparr>))"

text \<open>Modelled from the spec: Machine Registry \<^verbatim>\<open>create\<close>.\<close>

definition machine_create ::
  "string \<Rightarrow> string \<Rightarrow> string option \<Rightarrow> int option \<Rightarrow> service \<Rightarrow> (failure + machine) \<times> service" where
  "machine_create name hostname ipv4 network_id s =
     (if \<exists>m \<in> set (machines s). m_name m = name then (Inl DuplicateName, s)
      else if (case network_id of None \<Rightarrow> False
               | Some i \<Rightarrow> \<not> (\<exists>n \<in> set (networks s). n_id n = i))
      then (Inl UnknownNetwork, s)
      else
        let (i, s') = next_id MachineKind s;
            m = \<lparr>m_id = i, m_name = name, m_hostname = hostname, m_ipv4 = ipv4,
                 m_network_id = network_id\<rparr>
        in (Inr m, s'\<lparr>machines := machines s' @ [m]\<rparr>))"

text \<open>Modelled from the spec: Machine Registry \<^verbatim>\<open>list\<close>, all machines in insertion order.\<close>

definition machine_list :: "service \<Rightarrow> machine list" where
  "machine_list s = machines s"

text \<open>
  Modelled from the spec: Machine Registry \<^verbatim>\<open>delete\<close>, which deletes the SSH keys owned
  by the machine and then the machine record.
\<close>

definition machine_delete :: "int \<Rightarrow> service \<Rightarrow> (failure + unit) \<times> service" where
  "machine_delete i s =
     (if \<not> (\<exists>m \<in> set (machines s). m_id m = i) then (Inl NotFound, s)
      else
        let s' = s\<lparr>ssh_keys := filter (\<lambda>k. k_machine_id k \<noteq> i) (ssh_keys s)\<rparr>
        in (Inr (), s'\<lparr>machines := filter (\<lambda>m. m_id m \<noteq> i) (machines s')\<rparr>))"

text \<open>Modelled from the spec: SSH Key Registry \<^verbatim>\<open>create\<close>.\<close>

definition sshkey_create :: "int \<Rightarrow> string \<Rightarrow> service \<Rightarrow> (failure + sshkey) \<times> service" where
  "sshkey_create machine_id key_text s =
     (if \<not> (\<exists>m \<in> set (machines s). m_id m = machine_id) then (Inl UnknownMachine, s)
      else if blank key_text then (Inl EmptyKey, s)
      else
        let (i, s') = next_id SSHKeyKind s;
            k = \<lparr>k_id = i, k_machine_id = machine_id, k_key_text = key_text\<rparr>
        in (Inr k, s'\<lparr>ssh_keys := ssh_keys s' @ [k]\<rparr>))"

text \<open>Modelled from the spec: SSH Key Registry \<^verbatim>\<open>list\<close>, all keys in insertion order.\<close>

definition sshkey_list :: "service \<Rightarrow> sshkey list" where
  "sshkey_list s = ssh_keys s"

text \<open>Modelled from the spec: SSH Key Registry \<^verbatim>\<open>delete\<close>.\<close>

definition sshkey_delete :: "int \<Rightarrow> service \<Rightarrow> (failure + unit) \<times> service" where
  "sshkey_delete i s =
     (if \<not> (\<exists>k \<in> set (ssh_keys s). k_id k = i) then (Inl NotFound, s)
      else (Inr (), s\<lparr>ssh_keys := filter (\<lambda>k. k_id k \<noteq> i) (ssh_keys s)\<rparr>))"

section \<open>Worked examples\<close>

text \<open>
  The client of \<^verbatim>\<open>example_usage\<close>, on a session with no headers of its own and an
  empty jar.
\<close>

definition local_client :: NookClient where
  "local_client = NookClient_init \<lparr>headers = [], cookies = []\<rparr> ''http://localhost:8080''"

text \<open>
  A server for the examples that answers by verb: an empty list to a \<^verbatim>\<open>GET\<close>, a
  conflict to a \<^verbatim>\<open>POST\<close>, no content to a \<^verbatim>\<open>DELETE\<close>.
\<close>

definition by_verb :: "unit transport" where
  "by_verb =
     (\<lambda>w req.
        (if verb req = GET
         then Inr \<lparr>status_code = 200, decoded = Some (JArr []), set_cookies = []\<rparr>
         else if verb req = POST
         then Inr \<lparr>status_code = 409, decoded = None, set_cookies = []\<rparr>
         else Inr \<lparr>status_code = 204, decoded = None, set_cookies = []\<rparr>, w))"

text \<open>
  A server for the examples that answers every request with an empty list and a session
  cookie.
\<close>

definition cookie_server :: "unit transport" where
  "cookie_server =
     (\<lambda>w req.
        (Inr \<lparr>status_code = 200, decoded = Some (JArr []),
              set_cookies = [(''sid'', ''abc'')]\<rparr>, w))"

text \<open>A validity test for the examples, since the specification leaves the syntax open.\<close>

definition slash_cidr :: "string \<Rightarrow> bool" where
  "slash_cidr subnet = (CHR ''/'' \<in> set subnet)"

text \<open>
  The end-to-end scenario of the specification, section 8, before its delete: one
  network, one machine on it, one key of that machine, each with id 1.
\<close>

definition example_service :: service where
  "example_service =
     snd (sshkey_create 1 ''ssh-rsa AAAA''
       (snd (machine_create ''example-vm'' ''example-vm.local'' (Some ''192.168.100.10'') (Some 1)
         (snd (network_create slash_cidr ''example-net'' ''br0'' ''192.168.100.0/24''
                 None None None empty_service)))))"

definition example_network :: network where
  "example_network =
     \<lparr>n_id = 1, n_name = ''example-net'', n_bridge = ''br0'', n_subnet = ''192.168.100.0/24'',
      n_gateway = None, n_dns_servers = None, n_description = None\<rparr>"

definition example_machine :: machine where
  "example_machine =
     \<lparr>m_id = 1, m_name = ''example-vm'', m_hostname = ''example-vm.local'',
      m_ipv4 = Some ''192.168.100.10'', m_network_id = Some 1\<rparr>"

definition example_key :: sshkey where
  "example_key = \<lparr>k_id = 1, k_machine_id = 1, k_key_text = ''ssh-rsa AAAA''\<rparr>"

section \<open>Auxiliary facts\<close>

lemmas method_defs =
  get_machines_def create_machine_def get_machine_by_name_def delete_machine_def
  get_networks_def create_network_def get_ssh_keys_def add_ssh_key_def delete_ssh_key_def

lemmas session_defs =
  session_get_def session_post_def session_delete_def session_request_def extract_cookies_def

subsection \<open>Stripping trailing characters\<close>

lemma dropWhile_replicate:
  "dropWhile (\<lambda>x. x = c) (replicate n c @ ys) = dropWhile (\<lambda>x. x = c) ys"
  by (induction n) simp_all

lemma rstrip_replicate: "rstrip (b @ replicate n c) [c] = rstrip b [c]"
  by (simp add: rstrip_def dropWhile_replicate)

lemma rstrip_prefix: "\<exists>k. b = rstrip b [c] @ replicate k c"
proof -
  let ?t = "takeWhile (\<lambda>x. x = c) (rev b)" and ?d = "dropWhile (\<lambda>x. x = c) (rev b)"
  have "rev b = ?t @ ?d"
    by simp
  moreover have "?t = replicate (length ?t) c"
    by (metis (mono_tags, lifting) replicate_length_same set_takeWhileD)
  ultimately have "rev b = replicate (length ?t) c @ ?d"
    by simp
  then have "rev (rev b) = rev (replicate (length ?t) c @ ?d)"
    by (rule arg_cong)
  then have "b = rev ?d @ replicate (length ?t) c"
    by simp
  then show ?thesis
    by (auto simp: rstrip_def)
qed

lemma rstrip_no_trailing: "\<not> (\<exists>p. rstrip b [c] = p @ [c])"
proof
  assume "\<exists>p. rstrip b [c] = p @ [c]"
  then obtain p where "rev (dropWhile (\<lambda>x. x = c) (rev b)) = p @ [c]"
    by (auto simp: rstrip_def)
  then have "rev (rev (dropWhile (\<lambda>x. x = c) (rev b))) = rev (p @ [c])"
    by (rule arg_cong)
  then have eq: "dropWhile (\<lambda>x. x = c) (rev b) = c # rev p"
    by simp
  then have "dropWhile (\<lambda>x. x = c) (rev b) \<noteq> []"
    by simp
  then have "hd (dropWhile (\<lambda>x. x = c) (rev b)) \<noteq> c"
    by (rule hd_dropWhile)
  with eq show False
    by simp
qed

lemma init_base_url: "base_url (NookClient_init fresh b) = rstrip b ''/''"
  by (simp add: NookClient_init_def)

lemma init_headers:
  "map_of (headers (session (NookClient_init fresh b))) ''Content-Type'' = Some ''application/json''"
  "map_of (headers (session (NookClient_init fresh b))) ''User-Agent'' = Some ''nook-python-client/1.0''"
  by (simp_all add: NookClient_init_def headers_update_def AList.update_conv')

subsection \<open>One call: the object it leaves and the request it logs\<close>

lemma invoke_base_url: "base_url (client_after (invoke self c send w)) = base_url self"
  by (cases c) (simp_all add: method_defs client_after_def Let_def case_prod_beta)

lemma invoke_headers:
  "headers (session (client_after (invoke self c send w))) = headers (session self)"
  by (cases c)
    (simp_all add: method_defs session_defs client_after_def Let_def case_prod_beta
      split: sum.splits)

lemma invoke_world_shape:
  "\<exists>out self' w' req. invoke self c (logging send) (w, log) = (out, self', (w', log @ [req]))"
  by (cases c)
    (simp_all add: method_defs session_defs logging_def Let_def case_prod_beta)

lemma wire_invoke_any:
  "wire (invoke self c (logging send) (w, log)) =
     log @ wire (invoke self c (logging (replying (Inl ConnectionError))) ((), []))"
  by (cases c)
    (simp_all add: method_defs session_defs logging_def replying_def wire_def Let_def
      case_prod_beta)

lemma wire_invoke_session:
  "map (\<lambda>r. (verb r, url r, json_body r)) (wire (invoke self c (logging send) (w, []))) =
   map (\<lambda>r. (verb r, url r, json_body r))
     (wire (invoke \<lparr>base_url = base_url self, session = s'\<rparr> c (logging send') (w', [])))"
  by (cases c)
    (simp_all add: method_defs session_defs logging_def wire_def Let_def case_prod_beta)

lemma wire_invoke_sans_cookies:
  assumes "base_url self' = base_url self"
    and "headers (session self') = headers (session self)"
  shows "map sans_cookies (wire (invoke self' c (logging send) (w, log))) =
     map sans_cookies log @
     map sans_cookies (wire (invoke self c (logging send') (w', [])))"
  using assms
  by (cases c)
    (simp_all add: method_defs session_defs logging_def wire_def sans_cookies_def Let_def
      case_prod_beta)

subsection \<open>A run of calls\<close>

lemma run_frame:
  "base_url (client_after (run self cs send w)) = base_url self \<and>
   headers (session (client_after (run self cs send w))) = headers (session self)"
proof (induction cs arbitrary: self w)
  case Nil
  show ?case by (simp add: client_after_def)
next
  case (Cons c cs)
  obtain out self' w' where step: "invoke self c send w = (out, self', w')"
    by (cases "invoke self c send w") auto
  from invoke_base_url [of self c send w] invoke_headers [of self c send w] step
  have same: "base_url self' = base_url self" "headers (session self') = headers (session self)"
    by (simp_all add: client_after_def)
  obtain outs self'' w'' where rest: "run self' cs send w' = (outs, self'', w'')"
    by (cases "run self' cs send w'") auto
  from Cons.IH [of self' w'] rest
  have "base_url self'' = base_url self'" "headers (session self'') = headers (session self')"
    by (simp_all add: client_after_def)
  with step same rest show ?case
    by (simp add: client_after_def)
qed

lemma wire_run_sans_cookies:
  assumes "base_url self' = base_url self"
    and "headers (session self') = headers (session self)"
  shows "map sans_cookies (wire (run self' cs (logging send) (w, log))) =
     map sans_cookies log @
     concat (map (\<lambda>c. map sans_cookies (wire (invoke self c (logging send') (w', [])))) cs)"
  using assms
proof (induction cs arbitrary: self' w log)
  case Nil
  show ?case by (simp add: wire_def)
next
  case (Cons c cs)
  obtain out self1 w1 req where step:
    "invoke self' c (logging send) (w, log) = (out, self1, (w1, log @ [req]))"
    using invoke_world_shape [of self' c send w log] by blast
  from invoke_base_url [of self' c "logging send" "(w, log)"]
    invoke_headers [of self' c "logging send" "(w, log)"] step Cons.prems
  have frame: "base_url self1 = base_url self" "headers (session self1) = headers (session self)"
    by (simp_all add: client_after_def)
  from wire_invoke_sans_cookies [OF Cons.prems, of c send w log send' w'] step
  have one: "map sans_cookies (log @ [req]) =
      map sans_cookies log @ map sans_cookies (wire (invoke self c (logging send') (w', [])))"
    by (simp add: wire_def)
  obtain outs self2 w2 where rest:
    "run self1 cs (logging send) (w1, log @ [req]) = (outs, self2, w2)"
    by (cases "run self1 cs (logging send) (w1, log @ [req])") auto
  have "wire (run self' (c # cs) (logging send) (w, log)) =
          wire (run self1 cs (logging send) (w1, log @ [req]))"
    using step rest by (simp add: wire_def)
  then have "map sans_cookies (wire (run self' (c # cs) (logging send) (w, log))) =
      map sans_cookies (log @ [req]) @
      concat (map (\<lambda>c. map sans_cookies (wire (invoke self c (logging send') (w', [])))) cs)"
    using Cons.IH [OF frame, of w1 "log @ [req]"] by simp
  then show ?case
    using one by simp
qed

subsection \<open>The example service, computed\<close>

lemma example_service_eq:
  "example_service =
     \<lparr>last_id = (\<lambda>k. 1), networks = [example_network], machines = [example_machine],
      ssh_keys = [example_key]\<rparr>"
proof -
  have "(\<lambda>k. 0::int)(NetworkKind := 1, MachineKind := 1, SSHKeyKind := 1) = (\<lambda>k. 1)"
  proof
    fix k
    show "((\<lambda>k. 0::int)(NetworkKind := 1, MachineKind := 1, SSHKeyKind := 1)) k = 1"
      by (cases k) simp_all
  qed
  then show ?thesis
    by (simp add: example_service_def empty_service_def network_create_def machine_create_def
      sshkey_create_def next_id_def blank_def slash_cidr_def Let_def example_network_def
      example_machine_def example_key_def)
qed

section \<open>The client's requests\<close>

text \<open>
  Claim C4. Every method puts exactly one request on the wire, whatever the server does,
  and that request has the verb and the path of the method's row in the endpoint table,
  the path appended to the object's \<open>base_url\<close>: \<^verbatim>\<open>get_machines\<close> issues
  \<^verbatim>\<open>GET /api/v0/machines\<close>, \<^verbatim>\<open>delete_machine(id)\<close> issues
  \<^verbatim>\<open>DELETE /api/v0/machines/{id}\<close> with the id in decimal, and so on for the nine
  methods.
\<close>

theorem methods_follow_endpoint_table:
  "map (\<lambda>r. (verb r, url r)) (wire (invoke self c (logging send) (w, []))) =
     [(fst (endpoint c), base_url self @ snd (endpoint c))]"
  by (cases c)
    (simp_all add: method_defs session_defs logging_def wire_def Let_def case_prod_beta)

text \<open>
  Claim C2, as the code has it. \<^verbatim>\<open>create_machine\<close> sends one
  \<^verbatim>\<open>POST /api/v0/machines\<close> whose body holds \<open>name\<close> and \<open>hostname\<close> with the
  given values, then \<open>ipv4\<close> exactly when the argument is a non-empty string, then
  \<open>network_id\<close> exactly when the argument is a non-zero integer, each with the given
  value. With both of them so the body has exactly the four keys; an optional argument
  that is left out, or is the empty string, or is 0, has no key in the body.
\<close>

theorem create_machine_request:
  "wire (create_machine self name hostname ipv4 network_id (logging send) (w, [])) =
     [\<lparr>verb = POST, url = base_url self @ ''/api/v0/machines'',
       req_headers = headers (session self), req_cookies = cookies (session self),
       json_body = Some ([(''name'', JStr name), (''hostname'', JStr hostname)]
         @ (case ipv4 of None \<Rightarrow> [] | Some a \<Rightarrow> if a = [] then [] else [(''ipv4'', JStr a)])
         @ (case network_id of None \<Rightarrow> []
            | Some i \<Rightarrow> if i = 0 then [] else [(''network_id'', JInt i)]))\<rparr>]"
  by (simp add: create_machine_def session_defs logging_def wire_def Let_def setitem_def
      opt_str_def opt_int_def case_prod_beta split: option.splits)

text \<open>
  Claim C2 as stated fails: with both optional arguments provided, as the empty string
  and as 0, the body has neither key.
\<close>

theorem create_machine_drops_empty_and_zero:
  "map json_body (wire (create_machine local_client ''example-vm'' ''example-vm.local''
      (Some []) (Some 0) (logging (replying (Inl ConnectionError))) ((), []))) =
     [Some [(''name'', JStr ''example-vm''), (''hostname'', JStr ''example-vm.local'')]]"
  by (simp add: create_machine_def session_defs logging_def wire_def Let_def
      opt_str_def opt_int_def replying_def)

text \<open>
  Claim C3, as the code has it. \<^verbatim>\<open>create_network\<close> sends one
  \<^verbatim>\<open>POST /api/v0/networks\<close> whose body always holds \<open>name\<close>, \<open>bridge\<close> and \<open>subnet\<close>
  with the given values, and holds each of \<open>gateway\<close>, \<open>dns_servers\<close> and
  \<open>description\<close> exactly when that argument is provided and is not the empty string,
  with the given value.
\<close>

theorem create_network_request:
  "wire (create_network self name bridge subnet gateway dns_servers description
      (logging send) (w, [])) =
     [\<lparr>verb = POST, url = base_url self @ ''/api/v0/networks'',
       req_headers = headers (session self), req_cookies = cookies (session self),
       json_body = Some
         ([(''name'', JStr name), (''bridge'', JStr bridge), (''subnet'', JStr subnet)]
         @ (case gateway of None \<Rightarrow> []
            | Some a \<Rightarrow> if a = [] then [] else [(''gateway'', JStr a)])
         @ (case dns_servers of None \<Rightarrow> []
            | Some a \<Rightarrow> if a = [] then [] else [(''dns_servers'', JStr a)])
         @ (case description of None \<Rightarrow> []
            | Some a \<Rightarrow> if a = [] then [] else [(''description'', JStr a)]))\<rparr>]"
  by (simp add: create_network_def session_defs logging_def wire_def Let_def setitem_def
      opt_str_def case_prod_beta split: option.splits)

text \<open>
  Claim C3 as stated fails: a gateway, DNS servers and a description that are provided
  as empty strings are all absent from the body.
\<close>

theorem create_network_drops_empty:
  "map json_body (wire (create_network local_client ''example-net'' ''br0'' ''192.168.100.0/24''
      (Some []) (Some []) (Some []) (logging (replying (Inl ConnectionError))) ((), []))) =
     [Some [(''name'', JStr ''example-net''), (''bridge'', JStr ''br0''),
            (''subnet'', JStr ''192.168.100.0/24'')]]"
  by (simp add: create_network_def session_defs logging_def wire_def Let_def
      opt_str_def replying_def)

text \<open>
  Claim C8. \<^verbatim>\<open>add_ssh_key\<close> sends one \<^verbatim>\<open>POST /api/v0/ssh-keys\<close> whose body holds
  both \<open>machine_id\<close> and \<open>key_text\<close> with the given values, for every pair of
  arguments: nothing is tested before the request goes out, so the empty key text and
  the machine id 0 are sent as they are. \<^verbatim>\<open>create_machine\<close> and \<^verbatim>\<open>create_network\<close>,
  in contrast, leave out their optional fields.
\<close>

theorem add_ssh_key_sends_both_fields:
  "wire (add_ssh_key self machine_id key_text (logging send) (w, [])) =
     [\<lparr>verb = POST, url = base_url self @ ''/api/v0/ssh-keys'',
       req_headers = headers (session self), req_cookies = cookies (session self),
       json_body = Some [(''machine_id'', JInt machine_id), (''key_text'', JStr key_text)]\<rparr>] \<and>
   map json_body (wire (add_ssh_key self 0 [] (logging send) (w, []))) =
     [Some [(''machine_id'', JInt 0), (''key_text'', JStr [])]] \<and>
   map json_body (wire (create_machine self name hostname None None (logging send) (w, []))) =
     [Some [(''name'', JStr name), (''hostname'', JStr hostname)]] \<and>
   map json_body
     (wire (create_network self name bridge subnet None None None (logging send) (w, []))) =
     [Some [(''name'', JStr name), (''bridge'', JStr bridge), (''subnet'', JStr subnet)]]"
  by (simp add: add_ssh_key_def create_machine_def create_network_def session_defs
      logging_def wire_def Let_def opt_str_def opt_int_def case_prod_beta)

text \<open>
  Claim C9. A client constructed from \<open>b\<close> followed by \<open>n\<close> slashes issues, for every
  call and against every server, the same requests as a client constructed from \<open>b\<close>:
  both have the same \<open>base_url\<close>, which is \<open>b\<close> without its trailing slashes (\<open>b\<close> is
  that \<open>base_url\<close> followed by slashes only, and the \<open>base_url\<close> does not end in a
  slash).
\<close>

theorem trailing_slashes_stripped:
  "wire (invoke (NookClient_init fresh (b @ replicate n (CHR ''/''))) c (logging send) (w, [])) =
     wire (invoke (NookClient_init fresh b) c (logging send) (w, [])) \<and>
   base_url (NookClient_init fresh (b @ replicate n (CHR ''/''))) =
     base_url (NookClient_init fresh b) \<and>
   (\<exists>k. b = base_url (NookClient_init fresh b) @ replicate k (CHR ''/'')) \<and>
   \<not> (\<exists>p. base_url (NookClient_init fresh b) = p @ ''/'')"
proof -
  have same: "NookClient_init fresh (b @ replicate n (CHR ''/'')) = NookClient_init fresh b"
    by (simp add: NookClient_init_def rstrip_replicate)
  show ?thesis
    using rstrip_prefix [of b "CHR ''/''"] rstrip_no_trailing [of b "CHR ''/''"]
    by (simp add: same init_base_url)
qed

text \<open>
  Claim C10, as the code has it. After any sequence of calls, against any server, the
  client's \<open>base_url\<close> is the stripped constructor argument and its session headers are
  the ones \<^verbatim>\<open>__init__\<close> set, binding \<^verbatim>\<open>Content-Type\<close> to \<^verbatim>\<open>application/json\<close> and
  \<^verbatim>\<open>User-Agent\<close> to \<^verbatim>\<open>nook-python-client/1.0\<close>. Apart from the cookies, the requests
  a sequence of calls puts on the wire are, call by call, the requests each call issues
  on its own on the newly constructed client against any other server; and verb, URL and
  body of a call's request are the same for every object with that \<open>base_url\<close>,
  whatever its session.
\<close>

theorem methods_keep_base_url_and_headers:
  "base_url (client_after (run (NookClient_init fresh b) cs send w)) = rstrip b ''/'' \<and>
   headers (session (client_after (run (NookClient_init fresh b) cs send w))) =
     headers (session (NookClient_init fresh b)) \<and>
   map_of (headers (session (client_after (run (NookClient_init fresh b) cs send w))))
     ''Content-Type'' = Some ''application/json'' \<and>
   map_of (headers (session (client_after (run (NookClient_init fresh b) cs send w))))
     ''User-Agent'' = Some ''nook-python-client/1.0'' \<and>
   map sans_cookies (wire (run (NookClient_init fresh b) cs (logging send) (w, []))) =
     concat (map (\<lambda>c. map sans_cookies
       (wire (invoke (NookClient_init fresh b) c (logging send') (w', [])))) cs) \<and>
   map (\<lambda>r. (verb r, url r, json_body r))
     (wire (invoke (NookClient_init fresh b) c (logging send) (w, []))) =
   map (\<lambda>r. (verb r, url r, json_body r))
     (wire (invoke \<lparr>base_url = rstrip b ''/'', session = s'\<rparr> c (logging send') (w', [])))"
  using run_frame [of "NookClient_init fresh b" cs send w]
    wire_run_sans_cookies [OF refl refl, of "NookClient_init fresh b" cs send w "[]" send' w']
    wire_invoke_session [of "NookClient_init fresh b" c send w s' send' w']
  by (simp add: init_headers init_base_url)

text \<open>
  Claim C10 as stated fails: the session of the client object keeps a cookie jar. A
  reply that sets a cookie changes the object, and the same call with the same arguments
  then issues a different request, one that carries the cookie.
\<close>

theorem cookie_changes_client_and_request:
  "cookies (session local_client) = [] \<and>
   cookies (session (client_after (invoke local_client Get_machines cookie_server ()))) =
     [(''sid'', ''abc'')] \<and>
   client_after (invoke local_client Get_machines cookie_server ()) \<noteq> local_client \<and>
   map req_cookies
     (wire (run local_client [Get_machines, Get_machines] (logging cookie_server) ((), []))) =
     [[], [(''sid'', ''abc'')]]"
  by (simp add: get_machines_def session_defs logging_def cookie_server_def wire_def
      client_after_def local_client_def NookClient_init_def headers_update_def Let_def)

section \<open>Status codes and outcomes\<close>

text \<open>
  Claim C1, as the code has it. Let \<open>r\<close> be the response to the one request a call
  issues. If the status of \<open>r\<close> is from 400 to 599, every method raises
  \<^verbatim>\<open>HTTPError\<close> and returns no value. For every other status, \<^verbatim>\<open>delete_machine\<close> and
  \<^verbatim>\<open>delete_ssh_key\<close> return \<^verbatim>\<open>None\<close>, and every other method returns the body
  decoded as JSON (raising \<^verbatim>\<open>JSONDecodeError\<close> when the body is not JSON); the 2xx
  statuses are among these.
\<close>

theorem status_decides_outcome:
  assumes "wire (invoke self c (logging send) (w, [])) = [req]"
    and "fst (send w req) = Inr r"
  shows "(400 \<le> status_code r \<and> status_code r < 600 \<longrightarrow>
            returned (invoke self c send w) = Inl (HTTPError (status_code r))) \<and>
         (\<not> (400 \<le> status_code r \<and> status_code r < 600) \<longrightarrow>
            returned (invoke self c send w) =
              (if returns_None c then Inr JNull else response_json r)) \<and>
         (200 \<le> status_code r \<and> status_code r < 300 \<longrightarrow>
            returned (invoke self c send w) =
              (if returns_None c then Inr JNull else response_json r))"
  using assms
  by (cases c)
    (auto simp add: method_defs session_defs returned_def and_then_def raise_for_status_def
      logging_def wire_def Let_def case_prod_beta)

theorem status_decides_outcome_witness:
  "returned (invoke local_client Get_machines by_verb ()) = Inr (JArr []) \<and>
   returned (invoke local_client (Add_ssh_key 1 ''ssh-rsa AAAA'') by_verb ()) =
     Inl (HTTPError 409) \<and>
   returned (invoke local_client (Delete_ssh_key 3) by_verb ()) = Inr JNull"
proof -
  have g: "wire (invoke local_client Get_machines (logging by_verb) ((), [])) =
      [\<lparr>verb = GET, url = ''http://localhost:8080/api/v0/machines'',
        req_headers = headers (session local_client),
        req_cookies = cookies (session local_client), json_body = None\<rparr>]"
    by (simp add: get_machines_def session_defs logging_def wire_def Let_def case_prod_beta
        local_client_def NookClient_init_def rstrip_def)
  have p: "wire (invoke local_client (Add_ssh_key 1 ''ssh-rsa AAAA'') (logging by_verb) ((), [])) =
      [\<lparr>verb = POST, url = ''http://localhost:8080/api/v0/ssh-keys'',
        req_headers = headers (session local_client),
        req_cookies = cookies (session local_client),
        json_body = Some [(''machine_id'', JInt 1), (''key_text'', JStr ''ssh-rsa AAAA'')]\<rparr>]"
    by (simp add: add_ssh_key_def session_defs logging_def wire_def Let_def case_prod_beta
        local_client_def NookClient_init_def rstrip_def)
  have d: "wire (invoke local_client (Delete_ssh_key 3) (logging by_verb) ((), [])) =
      [\<lparr>verb = DELETE, url = ''http://localhost:8080/api/v0/ssh-keys/3'',
        req_headers = headers (session local_client),
        req_cookies = cookies (session local_client), json_body = None\<rparr>]"
    by (simp add: delete_ssh_key_def session_defs logging_def wire_def Let_def case_prod_beta
        local_client_def NookClient_init_def rstrip_def str_int_def str_nat.simps digit_def)
  show ?thesis
    using
      status_decides_outcome [OF g, of "\<lparr>status_code = 200, decoded = Some (JArr []), set_cookies = []\<rparr>"]
      status_decides_outcome [OF p, of "\<lparr>status_code = 409, decoded = None, set_cookies = []\<rparr>"]
      status_decides_outcome [OF d, of "\<lparr>status_code = 204, decoded = None, set_cookies = []\<rparr>"]
    by (simp add: by_verb_def response_json_def)
qed

text \<open>
  Claim C1 as stated fails: 304 and 300 are not 2xx statuses, yet \<^verbatim>\<open>delete_machine\<close>
  returns \<^verbatim>\<open>None\<close> on the first and \<^verbatim>\<open>get_machines\<close> returns the decoded body on
  the second; neither raises.
\<close>

theorem status_3xx_is_not_raised:
  "returned (delete_machine local_client 1
      (replying (Inr \<lparr>status_code = 304, decoded = None, set_cookies = []\<rparr>)) ()) =
     Inr JNull \<and>
   returned (get_machines local_client
      (replying (Inr \<lparr>status_code = 300, decoded = Some (JArr []), set_cookies = []\<rparr>)) ()) =
     Inr (JArr [])"
  by (simp add: delete_machine_def get_machines_def session_defs replying_def returned_def
      and_then_def raise_for_status_def response_json_def)

section \<open>The registries\<close>

text \<open>
  Claim C5. For every stored machine \<open>m\<close>, Machine Registry \<^verbatim>\<open>delete(m.id)\<close>
  succeeds; afterwards \<open>m\<close> is not listed, the SSH Key Registry lists no key whose
  \<open>machine_id\<close> is \<open>m\<close>'s id (it lists the other keys, and the Machine Registry the
  machines with another id, as before), and the networks are unchanged. Deleting an id
  that no stored machine has fails with \<open>NotFound\<close> and changes nothing.
\<close>

theorem machine_delete_cascades:
  "(m \<in> set (machine_list s) \<longrightarrow>
      fst (machine_delete (m_id m) s) = Inr () \<and>
      m \<notin> set (machine_list (snd (machine_delete (m_id m) s))) \<and>
      (\<forall>k \<in> set (sshkey_list (snd (machine_delete (m_id m) s))). k_machine_id k \<noteq> m_id m) \<and>
      sshkey_list (snd (machine_delete (m_id m) s)) =
        filter (\<lambda>k. k_machine_id k \<noteq> m_id m) (sshkey_list s) \<and>
      machine_list (snd (machine_delete (m_id m) s)) =
        filter (\<lambda>x. m_id x \<noteq> m_id m) (machine_list s) \<and>
      network_list (snd (machine_delete (m_id m) s)) = network_list s) \<and>
   ((\<forall>x \<in> set (machine_list s). m_id x \<noteq> i) \<longrightarrow> machine_delete i s = (Inl NotFound, s))"
  by (auto simp: machine_delete_def machine_list_def sshkey_list_def network_list_def Let_def)

theorem machine_delete_cascades_witness:
  "example_machine \<in> set (machine_list example_service) \<and>
   fst (machine_delete 1 example_service) = Inr () \<and>
   machine_list (snd (machine_delete 1 example_service)) = [] \<and>
   sshkey_list (snd (machine_delete 1 example_service)) = [] \<and>
   network_list (snd (machine_delete 1 example_service)) = [example_network] \<and>
   machine_delete 2 example_service = (Inl NotFound, example_service)"
  using machine_delete_cascades [of example_machine example_service 2]
  by (simp add: example_service_eq machine_list_def sshkey_list_def network_list_def
      example_machine_def example_key_def)

text \<open>
  Claim C6. For every stored network \<open>n\<close> that some stored machine references by its
  \<open>network_id\<close>, Network Registry \<^verbatim>\<open>delete(n.id)\<close> fails with \<open>ReferencedByMachine\<close>,
  the state is unchanged and \<open>n\<close> is still listed. Deleting an id that no stored network
  has fails with \<open>NotFound\<close> and changes nothing.
\<close>

theorem network_delete_guarded:
  "(n \<in> set (network_list s) \<and> (\<exists>m \<in> set (machine_list s). m_network_id m = Some (n_id n)) \<longrightarrow>
      network_delete (n_id n) s = (Inl ReferencedByMachine, s) \<and>
      n \<in> set (network_list (snd (network_delete (n_id n) s)))) \<and>
   ((\<forall>x \<in> set (network_list s). n_id x \<noteq> i) \<longrightarrow> network_delete i s = (Inl NotFound, s))"
  by (auto simp: network_delete_def machine_list_def network_list_def)

theorem network_delete_guarded_witness:
  "example_network \<in> set (network_list example_service) \<and>
   m_network_id example_machine = Some (n_id example_network) \<and>
   network_delete 1 example_service = (Inl ReferencedByMachine, example_service) \<and>
   network_list (snd (network_delete 1 example_service)) = [example_network] \<and>
   network_delete 2 example_service = (Inl NotFound, example_service)"
  using network_delete_guarded [of example_network example_service 2]
  by (simp add: example_service_eq machine_list_def network_list_def example_network_def
      example_machine_def)

text \<open>
  Claim C7. A creation that fails leaves the service as it was: the failure of a
  network creation is \<open>DuplicateName\<close> or \<open>InvalidSubnet\<close>, of a machine creation
  \<open>DuplicateName\<close> or \<open>UnknownNetwork\<close>, of a key creation \<open>UnknownMachine\<close> or
  \<open>EmptyKey\<close>, and in each case the state after the call is the state before it, so
  no record is stored, no id is issued and every \<^verbatim>\<open>list()\<close> returns what it returned
  before.
\<close>

theorem failed_create_changes_nothing:
  "(fst (network_create valid_cidr name bridge subnet gateway dns_servers description s) = Inl e \<longrightarrow>
      (e = DuplicateName \<or> e = InvalidSubnet) \<and>
      snd (network_create valid_cidr name bridge subnet gateway dns_servers description s) = s) \<and>
   (fst (machine_create name hostname ipv4 network_id s) = Inl e \<longrightarrow>
      (e = DuplicateName \<or> e = UnknownNetwork) \<and>
      snd (machine_create name hostname ipv4 network_id s) = s) \<and>
   (fst (sshkey_create machine_id key_text s) = Inl e \<longrightarrow>
      (e = UnknownMachine \<or> e = EmptyKey) \<and>
      snd (sshkey_create machine_id key_text s) = s)"
  by (simp add: network_create_def machine_create_def sshkey_create_def next_id_def Let_def
      split: if_splits option.splits)

theorem failed_create_changes_nothing_witness:
  "network_create slash_cidr ''example-net'' ''br1'' ''10.0.0.0/8'' None None None example_service =
     (Inl DuplicateName, example_service) \<and>
   network_create slash_cidr ''other-net'' ''br1'' ''10.0.0.0'' None None None example_service =
     (Inl InvalidSubnet, example_service) \<and>
   machine_create ''example-vm'' ''other.local'' None None example_service =
     (Inl DuplicateName, example_service) \<and>
   machine_create ''other-vm'' ''other.local'' None (Some 7) example_service =
     (Inl UnknownNetwork, example_service) \<and>
   sshkey_create 9 ''ssh-rsa BBBB'' example_service = (Inl UnknownMachine, example_service) \<and>
   sshkey_create 1 '' '' example_service = (Inl EmptyKey, example_service)"
proof -
  have n1: "fst (network_create slash_cidr ''example-net'' ''br1'' ''10.0.0.0/8'' None None None
      example_service) = Inl DuplicateName"
    by (simp add: network_create_def example_service_eq example_network_def)
  have n2: "fst (network_create slash_cidr ''other-net'' ''br1'' ''10.0.0.0'' None None None
      example_service) = Inl InvalidSubnet"
    by (simp add: network_create_def example_service_eq example_network_def slash_cidr_def)
  have m1: "fst (machine_create ''example-vm'' ''other.local'' None None example_service) =
      Inl DuplicateName"
    by (simp add: machine_create_def example_service_eq example_machine_def)
  have m2: "fst (machine_create ''other-vm'' ''other.local'' None (Some 7) example_service) =
      Inl UnknownNetwork"
    by (simp add: machine_create_def example_service_eq example_machine_def example_network_def)
  have k1: "fst (sshkey_create 9 ''ssh-rsa BBBB'' example_service) = Inl UnknownMachine"
    by (simp add: sshkey_create_def example_service_eq example_machine_def)
  have k2: "fst (sshkey_create 1 '' '' example_service) = Inl EmptyKey"
    by (simp add: sshkey_create_def example_service_eq example_machine_def blank_def)
  from n1 n2 m1 m2 k1 k2 show ?thesis
    using
      failed_create_changes_nothing [of slash_cidr "''example-net''" "''br1''" "''10.0.0.0/8''"
        None None None example_service DuplicateName "''other.local''" None None 9 "''ssh-rsa BBBB''"]
      failed_create_changes_nothing [of slash_cidr "''other-net''" "''br1''" "''10.0.0.0''"
        None None None example_service InvalidSubnet "''other.local''" None None 9 "''ssh-rsa BBBB''"]
      failed_create_changes_nothing [of slash_cidr "''example-vm''" "''br1''" "''10.0.0.0''"
        None None None example_service DuplicateName "''other.local''" None None 9 "''ssh-rsa BBBB''"]
      failed_create_changes_nothing [of slash_cidr "''other-vm''" "''br1''" "''10.0.0.0''"
        None None None example_service UnknownNetwork "''other.local''" None "Some 7" 9 "''ssh-rsa BBBB''"]
      failed_create_changes_nothing [of slash_cidr "''other-vm''" "''br1''" "''10.0.0.0''"
        None None None example_service UnknownMachine "''other.local''" None "Some 7" 9 "''ssh-rsa BBBB''"]
      failed_create_changes_nothing [of slash_cidr "''other-vm''" "''br1''" "''10.0.0.0''"
        None None None example_service EmptyKey "''other.local''" None "Some 7" 1 "'' ''"]
    by (simp add: prod_eq_iff)
qed

end
